theory Spec2Isabelle
  imports Main
begin

section \<open>Values shared by the models\<close>

text \<open>
  A JavaScript exception that leaves the function being modelled: a \<open>TypeError\<close> for a
  property read or written on \<open>undefined\<close>, an \<open>Error\<close> for one thrown by a library.
\<close>

datatype error = TypeError string | Error string

text \<open>
  \<open>process.env\<close> maps a variable name to its value, or to \<open>undefined\<close> (here \<open>None\<close>)
  when the variable is unset. A variable can be set to the empty string.
\<close>

type_synonym process_env = "string \<Rightarrow> string option"

text \<open>
  \<open>process.env.X || d\<close>: JavaScript's \<open>||\<close> yields its right operand when the left one
  is falsy, and both \<open>undefined\<close> and the empty string are falsy.
\<close>

definition or_default :: "string option \<Rightarrow> string \<Rightarrow> string" where
  "or_default v d = (case v of None \<Rightarrow> d | Some s \<Rightarrow> (if s = [] then d else s))"

section \<open>cdk/lib/cdk-pipeline-stack.ts: the data\<close>

record Environment =
  account :: string
  region :: string

text \<open>
  \<open>AppStageProps\<close>. The type \<open>'c\<close> stands for the framework's construct handles
  (\<open>IVpc\<close>, \<open>ISecurityGroup\<close>, \<open>IDatabaseInstance\<close>), which this file only passes on.
\<close>

record 'c AppStageProps =
  env :: "Environment option"
  primaryRdsInstance :: "'c option"
  secretReplicationRegions :: "string list option"

text \<open>
  What the stage reads of \<open>VpcStack\<close> and \<open>RDSStack\<close> (\<open>./vpc-stack\<close>, \<open>./rds-stack\<close>), and
  the properties it hands to \<open>RDSStack\<close> and \<open>GraphqlApiStack\<close> (\<open>./api-stack\<close>).
\<close>

record 'c VpcStack =
  vpc :: 'c
  ingressSecurityGroup :: 'c

record 'c RDSStackProps =
  rds_vpc :: 'c
  rds_securityGroup :: 'c
  rds_stage :: string
  rds_secretReplicationRegions :: "string list"
  rds_primaryRdsInstance :: "'c option"

record 'c RDSStack =
  postgresRDSInstance :: 'c
  rdsDbUser :: string
  rdsDbName :: string
  rdsPort :: string
  rdsDatabasePasswordSecretName :: string

record 'c GraphqlApiStackProps =
  api_vpc :: 'c
  inboundDbAccessSecurityGroup :: string
  rdsEndpoint :: string
  api_rdsDbUser :: string
  api_rdsDbName :: string
  api_rdsPort :: string
  rdsPasswordSecretName :: string

text \<open>
  Buckets: the logging property, the CloudFormation resource, the properties a bucket is
  created with, and the construct, which carries its name, those properties and its
  resource.
\<close>

record LoggingConfiguration =
  destinationBucketName :: string
  logFilePrefix :: string

record CfnBucket =
  loggingConfiguration :: "LoggingConfiguration option"

record BlockPublicAccess =
  blockPublicAcls :: bool
  blockPublicPolicy :: bool
  ignorePublicAcls :: bool
  restrictPublicBuckets :: bool

datatype BucketEncryption = UNENCRYPTED | KMS_MANAGED | S3_MANAGED | KMS

datatype RemovalPolicy = DESTROY | RETAIN | SNAPSHOT

record BucketProps =
  blockPublicAccess :: BlockPublicAccess
  encryption :: BucketEncryption
  enforceSSL :: bool
  removalPolicy :: RemovalPolicy
  autoDeleteObjects :: bool

record Bucket =
  bucketName :: string
  bucket_props :: BucketProps
  defaultChild :: "CfnBucket option"

text \<open>
  The collaborators the file imports and does not define: the three stack classes of
  the application, the two members of a database instance that the stage reads
  (\<open>connections.securityGroups[0].securityGroupId\<close> and \<open>dbInstanceEndpointAddress\<close>),
  the name the framework gives a bucket that is created without a \<open>bucketName\<close>
  property (a token that stands for the generated name), and the properties the
  framework creates the pipeline's artifact bucket with. Each stack constructor takes
  the id of its scope and its own id.
\<close>

record ('c, 'api) collaborators =
  new_VpcStack :: "string \<Rightarrow> string \<Rightarrow> 'c VpcStack"
  new_RDSStack :: "string \<Rightarrow> string \<Rightarrow> 'c RDSStackProps \<Rightarrow> 'c RDSStack"
  new_GraphqlApiStack :: "string \<Rightarrow> string \<Rightarrow> 'c GraphqlApiStackProps \<Rightarrow> 'api"
  firstSecurityGroupId :: "'c \<Rightarrow> string"
  dbInstanceEndpointAddress :: "'c \<Rightarrow> string"
  bucketNameToken :: "string \<Rightarrow> string"
  artifactBucketProps :: BucketProps

record ('c, 'api) AppStage =
  stage_id :: string
  stage_props :: "'c AppStageProps option"
  rdsStack :: "'c RDSStack"
  apiStack :: 'api

text \<open>The pipeline's steps, source and waves.\<close>

datatype Step = ManualApprovalStep string

record GitHubSource =
  repoString :: string
  branch :: string

record ShellStep =
  step_id :: string
  input :: GitHubSource
  commands :: "string list"

record ('c, 'api) Wave =
  wave_id :: string
  pre :: "Step list"
  stages :: "('c, 'api) AppStage list"

record ('c, 'api) CodePipeline =
  enableKeyRotation :: bool
  crossAccountKeys :: bool
  pipelineName :: string
  synth :: ShellStep
  waves :: "('c, 'api) Wave list"
  built :: bool
  artifactBucket :: "Bucket option"

text \<open>
  A child node of the scope the stack is created in (the app): the name of its class,
  and its \<open>replicationBucket\<close> member, \<open>undefined\<close> (\<open>None\<close>) on a node that has none.
\<close>

record Node =
  constructor_name :: string
  replicationBucket :: "Bucket option"

text \<open>
  The stack after its constructor has run: the cdk-nag suppressions, the ids of the
  constructs created with the stack as their scope (in the order of creation), the
  pipeline, and the access-log bucket.
\<close>

record ('c, 'api) PipelineStack =
  stackSuppressions :: "(string \<times> string) list"
  nodeChildren :: "string list"
  pipeline :: "('c, 'api) CodePipeline"
  accessLogsBucket :: Bucket

section \<open>The framework's operations\<close>

text \<open>
  Modelled from the spec: \<open>BlockPublicAccess.BLOCK_ALL\<close> of aws-cdk-lib, which is not
  among the sources: all four public-access-block flags set.
\<close>

definition BLOCK_ALL :: BlockPublicAccess where
  "BLOCK_ALL = \<lparr>blockPublicAcls = True, blockPublicPolicy = True,
     ignorePublicAcls = True, restrictPublicBuckets = True\<rparr>"

text \<open>
  Modelled from the spec: \<open>CodePipelineSource.gitHub\<close> of aws-cdk-lib/pipelines, which is
  not among the sources: a source step that references the repository and the branch
  it is given.
\<close>

definition gitHub :: "string \<Rightarrow> string \<Rightarrow> GitHubSource" where
  "gitHub repo br = \<lparr>repoString = repo, branch = br\<rparr>"

text \<open>
  Modelled from the spec: \<open>addWave\<close> and \<open>addStage\<close> of aws-cdk-lib/pipelines, which are
  not among the sources: a wave is appended to the pipeline's waves and a stage to its
  wave's stages, so that waves and stages keep the order in which they were added.
  \<open>addWave\<close> returns the new wave; the wave is an object shared with the pipeline, so
  the model returns its position in the pipeline's list and \<open>addStage\<close> updates the
  wave at that position.
\<close>

definition addWave ::
  "string \<Rightarrow> Step list \<Rightarrow> ('c, 'api) CodePipeline \<Rightarrow> nat \<times> ('c, 'api) CodePipeline" where
  "addWave name pre_steps p =
     (length (waves p),
      p\<lparr>waves := waves p @ [\<lparr>wave_id = name, pre = pre_steps, stages = []\<rparr>]\<rparr>)"

definition addStage ::
  "nat \<Rightarrow> ('c, 'api) AppStage \<Rightarrow> ('c, 'api) CodePipeline \<Rightarrow> ('c, 'api) CodePipeline" where
  "addStage w st p =
     (if w < length (waves p)
      then p\<lparr>waves := (waves p)[w := (waves p ! w)\<lparr>stages := stages (waves p ! w) @ [st]\<rparr>]\<rparr>
      else p)"

text \<open>
  Modelled from the spec: \<open>buildPipeline\<close> of aws-cdk-lib/pipelines, which is not among
  the sources: the finalization that materialises the deployment graph. It keeps the
  declared waves as they are and creates the pipeline's artifact bucket (a bucket with
  the framework's properties and its CloudFormation resource, no access logging yet);
  it can run once.
\<close>

definition buildPipeline ::
  "('c, 'api) collaborators \<Rightarrow> ('c, 'api) CodePipeline \<Rightarrow> error + ('c, 'api) CodePipeline" where
  "buildPipeline K p =
     (if built p then Inl (Error ''build() has already been called'')
      else Inr (p\<lparr>built := True,
                  artifactBucket := Some \<lparr>bucketName = bucketNameToken K ''ArtifactsBucket'',
                    bucket_props = artifactBucketProps K,
                    defaultChild = Some \<lparr>loggingConfiguration = None\<rparr>\<rparr>\<rparr>))"

text \<open>
  Modelled from the spec: the \<open>Bucket\<close> constructor of aws-cdk-lib/aws-s3, which is not
  among the sources: a bucket with the properties it is given and its CloudFormation
  resource; created without a \<open>bucketName\<close> property, its name is the framework's
  token for the construct id. The second component lists the ids of the constructs
  the creation adds to the stack: the bucket, and for a bucket that is destroyed with
  its objects (\<open>autoDeleteObjects\<close>) the framework's provider that empties it.
\<close>

definition Bucket_new ::
  "('c, 'api) collaborators \<Rightarrow> string \<Rightarrow> BucketProps \<Rightarrow> Bucket \<times> string list" where
  "Bucket_new K ident props =
     (\<lparr>bucketName = bucketNameToken K ident,
       bucket_props = props,
       defaultChild = Some \<lparr>loggingConfiguration = None\<rparr>\<rparr>,
      ident # (if autoDeleteObjects props
               then [''Custom::S3AutoDeleteObjectsCustomResourceProvider''] else []))"

section \<open>cdk/lib/cdk-pipeline-stack.ts: \<open>AppStage\<close>\<close>

definition AppStage_new ::
  "('c, 'api) collaborators \<Rightarrow> string \<Rightarrow> 'c AppStageProps option \<Rightarrow> ('c, 'api) AppStage" where
  "AppStage_new K ident props =
     (let vpcStack = new_VpcStack K ident ''VPCStack'';
          rds = new_RDSStack K ident ''RDSStack''
            \<lparr>rds_vpc = vpc vpcStack,
             rds_securityGroup = ingressSecurityGroup vpcStack,
             rds_stage = ident,
             rds_secretReplicationRegions =
               (case props of None \<Rightarrow> []
                | Some p \<Rightarrow> (case secretReplicationRegions p of None \<Rightarrow> [] | Some rs \<Rightarrow> rs)),
             rds_primaryRdsInstance =
               (case props of None \<Rightarrow> None | Some p \<Rightarrow> primaryRdsInstance p)\<rparr>;
          api = new_GraphqlApiStack K ident ''APIStack''
            \<lparr>api_vpc = vpc vpcStack,
             inboundDbAccessSecurityGroup = firstSecurityGroupId K (postgresRDSInstance rds),
             rdsEndpoint = dbInstanceEndpointAddress K (postgresRDSInstance rds),
             api_rdsDbUser = rdsDbUser rds,
             api_rdsDbName = rdsDbName rds,
             api_rdsPort = rdsPort rds,
             rdsPasswordSecretName = rdsDatabasePasswordSecretName rds\<rparr>
      in \<lparr>stage_id = ident, stage_props = props, rdsStack = rds, apiStack = api\<rparr>)"

section \<open>cdk/lib/cdk-pipeline-stack.ts: \<open>CdkPipelineStack\<close>\<close>

definition acccessLogsBucketNameStr :: string where
  "acccessLogsBucketNameStr = ''MultiAccountAccessLogsBucket''"

definition logFilePrefixStr :: string where
  "logFilePrefixStr = ''logs/''"

text \<open>
  The loop over \<open>scope.node.children\<close> (lines 150 to 160), from index \<open>i\<close>. A child whose
  class is named \<open>CrossRegionSupportStack\<close> gets the logging configuration written to the
  CloudFormation resource of its replication bucket; reading \<open>.node\<close> of a missing
  \<open>replicationBucket\<close>, or writing a property of a missing \<open>defaultChild\<close>, throws.
\<close>

function crossRegionLoop :: "nat \<Rightarrow> Node list \<Rightarrow> error + Node list" where
  "crossRegionLoop i appChildren =
     (if i < length appChildren then
        (if constructor_name (appChildren ! i) = ''CrossRegionSupportStack'' then
           (case replicationBucket (appChildren ! i) of
              None \<Rightarrow> Inl (TypeError ''replicationBucket is undefined'')
            | Some crossRegionBucket \<Rightarrow>
                (case defaultChild crossRegionBucket of
                   None \<Rightarrow> Inl (TypeError ''defaultChild is undefined'')
                 | Some cfn \<Rightarrow>
                     crossRegionLoop (i + 1)
                       (appChildren[i := (appChildren ! i)\<lparr>replicationBucket :=
                          Some (crossRegionBucket\<lparr>defaultChild :=
                            Some (cfn\<lparr>loggingConfiguration :=
                              Some \<lparr>destinationBucketName = acccessLogsBucketNameStr,
                                    logFilePrefix = logFilePrefixStr\<rparr>\<rparr>)\<rparr>)\<rparr>])))
         else crossRegionLoop (i + 1) appChildren)
      else Inr appChildren)"
  by pat_completeness auto
termination
  by (relation "measure (\<lambda>(i, appChildren). length appChildren - i)") auto

declare crossRegionLoop.simps [simp del]

text \<open>
  The constructor. It takes the collaborators, the environment variables and the
  children of its scope as the finalization leaves them, and returns the stack and the
  scope's children, or the exception that ends it.
\<close>

definition CdkPipelineStack ::
  "('c, 'api) collaborators \<Rightarrow> process_env \<Rightarrow> Node list
     \<Rightarrow> error + (('c, 'api) PipelineStack \<times> Node list)" where
  "CdkPipelineStack K penv scopeChildren =
     (let suppressions =
            [(''AwsSolutions-IAM5'', ''Supressing errors originating in external packages.'')];
          githubOrg = or_default (penv ''GITHUB_ORG'') ''undefined-github-org'';
          githubRepo = or_default (penv ''GITHUB_REPO'') ''undefined-github-repo'';
          githubBranch = or_default (penv ''GITHUB_BRANCH'') ''main'';
          devAccountId = or_default (penv ''DEV_ACCOUNT_ID'') ''undefined'';
          stgAccountId = or_default (penv ''STG_ACCOUNT_ID'') ''undefined'';
          prdAccountId = or_default (penv ''PRD_ACCOUNT_ID'') ''undefined'';
          primaryRegion = or_default (penv ''PRIMARY_REGION'') ''undefined'';
          secondaryRegion = or_default (penv ''SECONDARY_REGION'') ''undefined'';
          p0 = \<lparr>enableKeyRotation = True,
                crossAccountKeys = True,
                pipelineName = ''AwsSamplesPipeline'',
                synth = \<lparr>step_id = ''deploy'',
                         input = gitHub (githubOrg @ ''/'' @ githubRepo) githubBranch,
                         commands = [''npm ci'', ''npm run build'', ''npx cdk synth'']\<rparr>,
                waves = [], built = False, artifactBucket = None\<rparr>;
          ch0 = [''Pipeline''];
          (devQaWave, p1) = addWave ''DEV-and-QA-Deployments'' [] p0;
          dev = AppStage_new K ''dev''
            (Some \<lparr>env = Some \<lparr>account = devAccountId, region = primaryRegion\<rparr>,
                   primaryRdsInstance = None, secretReplicationRegions = None\<rparr>);
          ch1 = ch0 @ [''dev''];
          qa = AppStage_new K ''qa''
            (Some \<lparr>env = Some \<lparr>account = devAccountId, region = secondaryRegion\<rparr>,
                   primaryRdsInstance = None, secretReplicationRegions = None\<rparr>);
          ch2 = ch1 @ [''qa''];
          p2 = addStage devQaWave dev p1;
          p3 = addStage devQaWave qa p2;
          (primaryRdsRegionWave, p4) =
            addWave ''Primary-DB-Region-Deployments'' [ManualApprovalStep ''ProdManualApproval''] p3;
          stgPrimary = AppStage_new K ''stg-primary''
            (Some \<lparr>env = Some \<lparr>account = stgAccountId, region = primaryRegion\<rparr>,
                   primaryRdsInstance = None,
                   secretReplicationRegions = Some [secondaryRegion]\<rparr>);
          ch3 = ch2 @ [''stg-primary''];
          prdPrimary = AppStage_new K ''prd-primary''
            (Some \<lparr>env = Some \<lparr>account = prdAccountId, region = primaryRegion\<rparr>,
                   primaryRdsInstance = None,
                   secretReplicationRegions = Some [secondaryRegion]\<rparr>);
          ch4 = ch3 @ [''prd-primary''];
          p5 = addStage primaryRdsRegionWave stgPrimary p4;
          p6 = addStage primaryRdsRegionWave prdPrimary p5;
          (secondaryRdsRegionWave, p7) = addWave ''Secondary-DB-Region-Deployments'' [] p6;
          stgBackup = AppStage_new K ''stg-backup''
            (Some \<lparr>env = Some \<lparr>account = stgAccountId, region = secondaryRegion\<rparr>,
                   primaryRdsInstance = Some (postgresRDSInstance (rdsStack stgPrimary)),
                   secretReplicationRegions = None\<rparr>);
          ch5 = ch4 @ [''stg-backup''];
          prdBackup = AppStage_new K ''prd-backup''
            (Some \<lparr>env = Some \<lparr>account = prdAccountId, region = secondaryRegion\<rparr>,
                   primaryRdsInstance = Some (postgresRDSInstance (rdsStack prdPrimary)),
                   secretReplicationRegions = None\<rparr>);
          ch6 = ch5 @ [''prd-backup''];
          p8 = addStage secondaryRdsRegionWave stgBackup p7;
          p9 = addStage secondaryRdsRegionWave prdBackup p8
      in case buildPipeline K p9 of
           Inl e \<Rightarrow> Inl e
         | Inr p10 \<Rightarrow>
             (let (logsBucket, created) = Bucket_new K acccessLogsBucketNameStr
                    \<lparr>blockPublicAccess = BLOCK_ALL,
                     encryption = S3_MANAGED,
                     enforceSSL = True,
                     removalPolicy = DESTROY,
                     autoDeleteObjects = True\<rparr>;
                  ch7 = ch6 @ created
              in case artifactBucket p10 of
                   None \<Rightarrow> Inl (Error ''Pipeline not created yet'')
                 | Some artifacts \<Rightarrow>
                     (case defaultChild artifacts of
                        None \<Rightarrow> Inl (TypeError ''defaultChild is undefined'')
                      | Some cfn \<Rightarrow>
                          (let p11 = p10\<lparr>artifactBucket :=
                                 Some (artifacts\<lparr>defaultChild :=
                                   Some (cfn\<lparr>loggingConfiguration :=
                                     Some \<lparr>destinationBucketName = bucketName logsBucket,
                                           logFilePrefix = logFilePrefixStr\<rparr>\<rparr>)\<rparr>)\<rparr>
                           in case crossRegionLoop 0 scopeChildren of
                                Inl e \<Rightarrow> Inl e
                              | Inr appChildren \<Rightarrow>
                                  Inr (\<lparr>stackSuppressions = suppressions,
                                        nodeChildren = ch7,
                                        pipeline = p11,
                                        accessLogsBucket = logsBucket\<rparr>,
                                       appChildren)))))"

text \<open>
  Reading the result: the stage of a given id among the stages of all waves, and whether
  one id stands before another in a list of ids (the order in which constructs were
  created).
\<close>

definition stageNamed ::
  "string \<Rightarrow> ('c, 'api) PipelineStack \<Rightarrow> ('c, 'api) AppStage option" where
  "stageNamed n st = find (\<lambda>s. stage_id s = n) (concat (map stages (waves (pipeline st))))"

fun createdBefore :: "string \<Rightarrow> string \<Rightarrow> string list \<Rightarrow> bool" where
  "createdBefore a b [] = False"
| "createdBefore a b (x # xs) =
     (if x = a then b \<in> set xs else if x = b then False else createdBefore a b xs)"

section \<open>Lambda handler A (unnamed/part\_000)\<close>

text \<open>
  A promise as a later observer finds it, and the outcome of a synchronous call.
\<close>

datatype 'a promise = Pending | Fulfilled 'a | Rejected error

datatype 'a completion = Returned 'a | Thrown error

text \<open>
  \<open>createConnection = async () => { await db(); }\<close>. The argument is what the call
  \<open>db()\<close> does. An \<open>async\<close> function returns a promise whatever its body does: a throw
  inside it rejects that promise, and \<open>await\<close> passes a rejection on.
\<close>

definition createConnection :: "'a promise completion \<Rightarrow> unit promise" where
  "createConnection db =
     (case db of
        Thrown e \<Rightarrow> Rejected e
      | Returned p \<Rightarrow>
          (case p of Pending \<Rightarrow> Pending | Fulfilled v \<Rightarrow> Fulfilled () | Rejected e \<Rightarrow> Rejected e))"

datatype plugin = ApolloServerPluginLandingPageGraphQLPlayground

record ('t, 'r) ApolloServerConfig =
  typeDefs :: 't
  resolvers :: 'r
  introspection :: bool
  plugins :: "plugin list"

text \<open>
  The evaluation of the module, given the library's \<open>ApolloServer\<close> constructor and
  \<open>createHandler\<close> (either may throw), the imported schema and resolvers, and what
  \<open>db()\<close> does. The statement \<open>createConnection();\<close> makes the call and drops the
  promise it returns: the module does not await it and attaches no handler to it, so
  the promise is recorded among the \<open>unobserved\<close> ones, whose settlement no code of
  the module sees. \<open>exported\<close> is the exported \<open>handler\<close>, or the exception that ends
  the evaluation.
\<close>

record 'h module_evaluation =
  unobserved :: "unit promise list"
  exported :: "error + 'h"

definition part_000 ::
  "(('t, 'r) ApolloServerConfig \<Rightarrow> 'srv completion) \<Rightarrow> ('srv \<Rightarrow> 'h completion) \<Rightarrow> 't \<Rightarrow> 'r
     \<Rightarrow> 'a promise completion \<Rightarrow> 'h module_evaluation" where
  "part_000 ApolloServer createHandler tds rs db =
     (let connection = createConnection db;
          dropped = [connection]
      in case ApolloServer \<lparr>typeDefs = tds, resolvers = rs, introspection = True,
                plugins = [ApolloServerPluginLandingPageGraphQLPlayground]\<rparr> of
           Thrown e \<Rightarrow> \<lparr>unobserved = dropped, exported = Inl e\<rparr>
         | Returned server \<Rightarrow>
             (case createHandler server of
                Thrown e \<Rightarrow> \<lparr>unobserved = dropped, exported = Inl e\<rparr>
              | Returned h \<Rightarrow> \<lparr>unobserved = dropped, exported = Inr h\<rparr>))"

section \<open>Lambda handler B (unnamed/part\_001)\<close>

text \<open>
  The invocation context; the handler reads \<open>logStreamName\<close> only, and the record scheme
  leaves room for the other members.
\<close>

record Context =
  logStreamName :: string


section \<open>Concrete inputs\<close>

text \<open>
  Collaborators for evaluating the constructor: handles are construct paths, and the
  name token of a bucket is written \<open>token:\<close> followed by the construct id.
\<close>

definition example_collaborators :: "(string, string) collaborators" where
  "example_collaborators =
     \<lparr>new_VpcStack = (\<lambda>scope ident.
        \<lparr>vpc = scope @ ''/'' @ ident @ ''/Vpc'',
         ingressSecurityGroup = scope @ ''/'' @ ident @ ''/IngressSecurityGroup''\<rparr>),
      new_RDSStack = (\<lambda>scope ident props.
        \<lparr>postgresRDSInstance = scope @ ''/'' @ ident @ ''/PostgresRdsInstance'',
         rdsDbUser = ''postgres'', rdsDbName = ''postgres'', rdsPort = ''5432'',
         rdsDatabasePasswordSecretName = scope @ ''-secret''\<rparr>),
      new_GraphqlApiStack = (\<lambda>scope ident props. scope @ ''/'' @ ident),
      firstSecurityGroupId = (\<lambda>db. db @ ''/SecurityGroup''),
      dbInstanceEndpointAddress = (\<lambda>db. db @ ''/Endpoint''),
      bucketNameToken = (\<lambda>ident. ''token:'' @ ident),
      artifactBucketProps =
        \<lparr>blockPublicAccess = BLOCK_ALL, encryption = KMS, enforceSSL = True,
         removalPolicy = RETAIN, autoDeleteObjects = False\<rparr>\<rparr>"

text \<open>
  No variable set; the scenario of the specification; and that scenario with
  \<open>GITHUB_ORG\<close> set to the empty string.
\<close>

definition env_unset :: process_env where
  "env_unset = Map.empty"

definition env_release :: process_env where
  "env_release = [''GITHUB_ORG'' \<mapsto> ''acme'', ''GITHUB_REPO'' \<mapsto> ''app'',
     ''GITHUB_BRANCH'' \<mapsto> ''release'']"

definition env_empty_org :: process_env where
  "env_empty_org = [''GITHUB_ORG'' \<mapsto> [], ''GITHUB_REPO'' \<mapsto> ''app'',
     ''GITHUB_BRANCH'' \<mapsto> ''release'']"

text \<open>
  Children of the app: the pipeline stack itself, and a cross-region support stack
  with its replication bucket, as the finalization creates one for a region other than
  the pipeline's.
\<close>

definition pipelineStackNode :: Node where
  "pipelineStackNode = \<lparr>constructor_name = ''CdkPipelineStack'', replicationBucket = None\<rparr>"

definition supportStackNode :: Node where
  "supportStackNode =
     \<lparr>constructor_name = ''CrossRegionSupportStack'',
      replicationBucket = Some \<lparr>bucketName = ''token:CrossRegionCodePipelineReplicationBucket'',
        bucket_props =
          \<lparr>blockPublicAccess = BLOCK_ALL, encryption = KMS_MANAGED, enforceSSL = True,
           removalPolicy = RETAIN, autoDeleteObjects = False\<rparr>,
        defaultChild = Some \<lparr>loggingConfiguration = None\<rparr>\<rparr>\<rparr>"



text \<open>
  The stack a run of the constructor returns, if it returns one.
\<close>

definition resultStack ::
  "error + (('c, 'api) PipelineStack \<times> Node list) \<Rightarrow> ('c, 'api) PipelineStack option" where
  "resultStack r = (case r of Inl e \<Rightarrow> None | Inr (st, appChildren) \<Rightarrow> Some st)"

section \<open>The framework operations keep the order of declaration\<close>

lemma addWave_appends:
  "waves (snd (addWave name pre_steps p)) = waves p @ [\<lparr>wave_id = name, pre = pre_steps, stages = []\<rparr>]"
  by (simp add: addWave_def)

lemma addWave_returns_last:
  "fst (addWave name pre_steps p) = length (waves p)"
  by (simp add: addWave_def)

lemma addStage_appends:
  "w < length (waves p) \<Longrightarrow>
     stages (waves (addStage w st p) ! w) = stages (waves p ! w) @ [st]"
  by (simp add: addStage_def)

lemma addStage_keeps_waves:
  "map wave_id (waves (addStage w st p)) = map wave_id (waves p)"
  by (simp add: addStage_def map_update list_update_same_conv)

lemma buildPipeline_keeps_waves:
  "buildPipeline K p = Inr p' \<Longrightarrow> waves p' = waves p \<and> built p'"
  by (auto simp add: buildPipeline_def split: if_splits)

section \<open>The constructor's result\<close>

text \<open>
  The constructor fails only where the loop over the scope's children fails; otherwise
  it returns the stack below, whatever the children are.
\<close>

lemma CdkPipelineStack_result:
  fixes K :: "('c, 'api) collaborators" and penv :: process_env
  defines "devAccountId \<equiv> or_default (penv ''DEV_ACCOUNT_ID'') ''undefined''"
    and "stgAccountId \<equiv> or_default (penv ''STG_ACCOUNT_ID'') ''undefined''"
    and "prdAccountId \<equiv> or_default (penv ''PRD_ACCOUNT_ID'') ''undefined''"
    and "primaryRegion \<equiv> or_default (penv ''PRIMARY_REGION'') ''undefined''"
    and "secondaryRegion \<equiv> or_default (penv ''SECONDARY_REGION'') ''undefined''"
  defines "dev \<equiv> AppStage_new K ''dev''
      (Some \<lparr>env = Some \<lparr>account = devAccountId, region = primaryRegion\<rparr>,
             primaryRdsInstance = None, secretReplicationRegions = None\<rparr>)"
    and "qa \<equiv> AppStage_new K ''qa''
      (Some \<lparr>env = Some \<lparr>account = devAccountId, region = secondaryRegion\<rparr>,
             primaryRdsInstance = None, secretReplicationRegions = None\<rparr>)"
    and "stgPrimary \<equiv> AppStage_new K ''stg-primary''
      (Some \<lparr>env = Some \<lparr>account = stgAccountId, region = primaryRegion\<rparr>,
             primaryRdsInstance = None, secretReplicationRegions = Some [secondaryRegion]\<rparr>)"
    and "prdPrimary \<equiv> AppStage_new K ''prd-primary''
      (Some \<lparr>env = Some \<lparr>account = prdAccountId, region = primaryRegion\<rparr>,
             primaryRdsInstance = None, secretReplicationRegions = Some [secondaryRegion]\<rparr>)"
  defines "stgBackup \<equiv> AppStage_new K ''stg-backup''
      (Some \<lparr>env = Some \<lparr>account = stgAccountId, region = secondaryRegion\<rparr>,
             primaryRdsInstance = Some (postgresRDSInstance (rdsStack stgPrimary)),
             secretReplicationRegions = None\<rparr>)"
    and "prdBackup \<equiv> AppStage_new K ''prd-backup''
      (Some \<lparr>env = Some \<lparr>account = prdAccountId, region = secondaryRegion\<rparr>,
             primaryRdsInstance = Some (postgresRDSInstance (rdsStack prdPrimary)),
             secretReplicationRegions = None\<rparr>)"
  shows "CdkPipelineStack K penv cs =
    (case crossRegionLoop 0 cs of
       Inl e \<Rightarrow> Inl e
     | Inr appChildren \<Rightarrow>
         Inr (\<lparr>stackSuppressions =
                 [(''AwsSolutions-IAM5'', ''Supressing errors originating in external packages.'')],
               nodeChildren = [''Pipeline'', ''dev'', ''qa'', ''stg-primary'', ''prd-primary'',
                 ''stg-backup'', ''prd-backup'', ''MultiAccountAccessLogsBucket'',
                 ''Custom::S3AutoDeleteObjectsCustomResourceProvider''],
               pipeline =
                 \<lparr>enableKeyRotation = True, crossAccountKeys = True,
                  pipelineName = ''AwsSamplesPipeline'',
                  synth = \<lparr>step_id = ''deploy'',
                    input = \<lparr>repoString = or_default (penv ''GITHUB_ORG'') ''undefined-github-org''
                                 @ ''/'' @ or_default (penv ''GITHUB_REPO'') ''undefined-github-repo'',
                             branch = or_default (penv ''GITHUB_BRANCH'') ''main''\<rparr>,
                    commands = [''npm ci'', ''npm run build'', ''npx cdk synth'']\<rparr>,
                  waves =
                    [\<lparr>wave_id = ''DEV-and-QA-Deployments'', pre = [], stages = [dev, qa]\<rparr>,
                     \<lparr>wave_id = ''Primary-DB-Region-Deployments'',
                      pre = [ManualApprovalStep ''ProdManualApproval''],
                      stages = [stgPrimary, prdPrimary]\<rparr>,
                     \<lparr>wave_id = ''Secondary-DB-Region-Deployments'', pre = [],
                      stages = [stgBackup, prdBackup]\<rparr>],
                  built = True,
                  artifactBucket = Some
                    \<lparr>bucketName = bucketNameToken K ''ArtifactsBucket'',
                     bucket_props = artifactBucketProps K,
                     defaultChild = Some \<lparr>loggingConfiguration = Some
                       \<lparr>destinationBucketName = bucketNameToken K ''MultiAccountAccessLogsBucket'',
                        logFilePrefix = ''logs/''\<rparr>\<rparr>\<rparr>\<rparr>,
               accessLogsBucket =
                 \<lparr>bucketName = bucketNameToken K ''MultiAccountAccessLogsBucket'',
                  bucket_props =
                    \<lparr>blockPublicAccess = \<lparr>blockPublicAcls = True, blockPublicPolicy = True,
                       ignorePublicAcls = True, restrictPublicBuckets = True\<rparr>,
                     encryption = S3_MANAGED, enforceSSL = True,
                     removalPolicy = DESTROY, autoDeleteObjects = True\<rparr>,
                  defaultChild = Some \<lparr>loggingConfiguration = None\<rparr>\<rparr>\<rparr>,
              appChildren))"
  unfolding CdkPipelineStack_def Let_def addWave_def Bucket_new_def split_conv assms
  by (simp add: addStage_def buildPipeline_def gitHub_def BLOCK_ALL_def
      acccessLogsBucketNameStr_def logFilePrefixStr_def split: sum.split)

lemma AppStage_new_id: "stage_id (AppStage_new K ident props) = ident"
  by (simp add: AppStage_new_def Let_def)

lemma AppStage_new_props: "stage_props (AppStage_new K ident props) = props"
  by (simp add: AppStage_new_def Let_def)

lemma AppStage_new_rds:
  "rdsStack (AppStage_new K ident (Some props)) =
     new_RDSStack K ident ''RDSStack''
       \<lparr>rds_vpc = vpc (new_VpcStack K ident ''VPCStack''),
        rds_securityGroup = ingressSecurityGroup (new_VpcStack K ident ''VPCStack''),
        rds_stage = ident,
        rds_secretReplicationRegions =
          (case secretReplicationRegions props of None \<Rightarrow> [] | Some rs \<Rightarrow> rs),
        rds_primaryRdsInstance = primaryRdsInstance props\<rparr>"
  by (simp add: AppStage_new_def Let_def)

section \<open>The loop over the scope's children\<close>

lemma crossRegionLoop_past_end:
  "length cs \<le> i \<Longrightarrow> crossRegionLoop i cs = Inr cs"
  by (subst crossRegionLoop.simps) simp

lemma crossRegionLoop_noop:
  assumes "\<And>k. i \<le> k \<Longrightarrow> k < length cs \<Longrightarrow>
             constructor_name (cs ! k) \<noteq> ''CrossRegionSupportStack''"
  shows "crossRegionLoop i cs = Inr cs"
  using assms
proof (induction i cs rule: crossRegionLoop.induct)
  case (1 i cs)
  show ?case
  proof (cases "i < length cs")
    case True
    have ne: "constructor_name (cs ! i) \<noteq> ''CrossRegionSupportStack''"
      using "1.prems" [of i] True by simp
    have "crossRegionLoop (i + 1) cs = Inr cs"
      using "1.IH"(2) [OF True ne] "1.prems" by simp
    then show ?thesis
      using True ne by (subst crossRegionLoop.simps) simp
  next
    case False
    then show ?thesis by (simp add: crossRegionLoop_past_end)
  qed
qed

text \<open>
  What the loop does to the children when it returns: the list keeps its length; from
  index \<open>i\<close> on, a child with the class name \<open>CrossRegionSupportStack\<close> has the logging
  configuration of its replication bucket set to the literal
  \<open>MultiAccountAccessLogsBucket\<close> with the prefix \<open>logs/\<close>; every other child is as it
  was.
\<close>

lemma crossRegionLoop_length:
  "crossRegionLoop i cs = Inr cs' \<Longrightarrow> length cs' = length cs"
proof (induction i cs rule: crossRegionLoop.induct)
  case (1 i cs)
  from "1.prems" show ?case
    by (subst (asm) crossRegionLoop.simps)
       (auto split: if_splits option.splits dest: "1.IH"(1) "1.IH"(2))
qed

lemma crossRegionLoop_untouched:
  "crossRegionLoop i cs = Inr cs' \<Longrightarrow> k < length cs \<Longrightarrow>
     k < i \<or> constructor_name (cs ! k) \<noteq> ''CrossRegionSupportStack'' \<Longrightarrow> cs' ! k = cs ! k"
proof (induction i cs rule: crossRegionLoop.induct)
  case (1 i cs)
  show ?case
  proof (cases "i < length cs")
    case False
    with "1.prems"(1) show ?thesis
      by (simp add: crossRegionLoop_past_end)
  next
    case True
    show ?thesis
    proof (cases "constructor_name (cs ! i) = ''CrossRegionSupportStack''")
      case False
      with True "1.prems"(1) have "crossRegionLoop (i + 1) cs = Inr cs'"
        by (subst (asm) crossRegionLoop.simps) simp
      moreover have "k < i + 1 \<or> constructor_name (cs ! k) \<noteq> ''CrossRegionSupportStack''"
        using "1.prems"(3) by auto
      ultimately show ?thesis
        using "1.IH"(2) [OF True False] "1.prems"(2) by blast
    next
      case match: True
      from True match "1.prems"(1) obtain b cfn where
        b: "replicationBucket (cs ! i) = Some b" and cfn: "defaultChild b = Some cfn" and
        rec: "crossRegionLoop (i + 1)
               (cs[i := (cs ! i)\<lparr>replicationBucket :=
                  Some (b\<lparr>defaultChild :=
                    Some (cfn\<lparr>loggingConfiguration :=
                      Some \<lparr>destinationBucketName = acccessLogsBucketNameStr,
                            logFilePrefix = logFilePrefixStr\<rparr>\<rparr>)\<rparr>)\<rparr>]) = Inr cs'"
        by (subst (asm) crossRegionLoop.simps) (auto split: option.splits)
      let ?cs1 = "cs[i := (cs ! i)\<lparr>replicationBucket :=
                  Some (b\<lparr>defaultChild :=
                    Some (cfn\<lparr>loggingConfiguration :=
                      Some \<lparr>destinationBucketName = acccessLogsBucketNameStr,
                            logFilePrefix = logFilePrefixStr\<rparr>\<rparr>)\<rparr>)\<rparr>]"
      have ki: "k \<noteq> i" using "1.prems"(3) match by auto
      have "k < length ?cs1" using "1.prems"(2) by simp
      moreover have "k < i + 1 \<or> constructor_name (?cs1 ! k) \<noteq> ''CrossRegionSupportStack''"
        using "1.prems"(3) ki by auto
      ultimately have "cs' ! k = ?cs1 ! k"
        using "1.IH"(1) [OF True match b cfn rec] by blast
      then show ?thesis using ki by simp
    qed
  qed
qed

lemma crossRegionLoop_destination:
  "crossRegionLoop i cs = Inr cs' \<Longrightarrow> i \<le> k \<Longrightarrow> k < length cs \<Longrightarrow>
     constructor_name (cs ! k) = ''CrossRegionSupportStack'' \<Longrightarrow>
     \<exists>b cfn. replicationBucket (cs ! k) = Some b \<and> defaultChild b = Some cfn \<and>
       cs' ! k = (cs ! k)\<lparr>replicationBucket :=
         Some (b\<lparr>defaultChild :=
           Some (cfn\<lparr>loggingConfiguration :=
             Some \<lparr>destinationBucketName = ''MultiAccountAccessLogsBucket'',
                   logFilePrefix = ''logs/''\<rparr>\<rparr>)\<rparr>)\<rparr>"
proof (induction i cs rule: crossRegionLoop.induct)
  case (1 i cs)
  have len: "i < length cs" using "1.prems"(2,3) by simp
  show ?case
  proof (cases "constructor_name (cs ! i) = ''CrossRegionSupportStack''")
    case False
    with len "1.prems"(1) have rec: "crossRegionLoop (i + 1) cs = Inr cs'"
      by (subst (asm) crossRegionLoop.simps) simp
    have "i + 1 \<le> k" using False "1.prems"(2,4) by (cases "k = i") auto
    then show ?thesis
      using "1.IH"(2) [OF len False rec _ "1.prems"(3,4)] by blast
  next
    case match: True
    from len match "1.prems"(1) obtain b cfn where
      b: "replicationBucket (cs ! i) = Some b" and cfn: "defaultChild b = Some cfn" and
      rec: "crossRegionLoop (i + 1)
             (cs[i := (cs ! i)\<lparr>replicationBucket :=
                Some (b\<lparr>defaultChild :=
                  Some (cfn\<lparr>loggingConfiguration :=
                    Some \<lparr>destinationBucketName = acccessLogsBucketNameStr,
                          logFilePrefix = logFilePrefixStr\<rparr>\<rparr>)\<rparr>)\<rparr>]) = Inr cs'"
      by (subst (asm) crossRegionLoop.simps) (auto split: option.splits)
    let ?cs1 = "cs[i := (cs ! i)\<lparr>replicationBucket :=
                Some (b\<lparr>defaultChild :=
                  Some (cfn\<lparr>loggingConfiguration :=
                    Some \<lparr>destinationBucketName = acccessLogsBucketNameStr,
                          logFilePrefix = logFilePrefixStr\<rparr>\<rparr>)\<rparr>)\<rparr>]"
    show ?thesis
    proof (cases "k = i")
      case True
      have "cs' ! i = ?cs1 ! i"
        using crossRegionLoop_untouched [OF rec, of i] len by simp
      then show ?thesis
        using True b cfn len
        by (simp add: acccessLogsBucketNameStr_def logFilePrefixStr_def)
    next
      case False
      then have "i + 1 \<le> k" using "1.prems"(2) by simp
      moreover have "k < length ?cs1" using "1.prems"(3) by simp
      moreover have "constructor_name (?cs1 ! k) = ''CrossRegionSupportStack''"
        using False "1.prems"(4) by simp
      ultimately show ?thesis
        using "1.IH"(1) [OF len match b cfn rec] False by simp
    qed
  qed
qed

lemma crossRegionLoop_example:
  "crossRegionLoop 0 [pipelineStackNode, supportStackNode] =
     Inr [pipelineStackNode,
          \<lparr>constructor_name = ''CrossRegionSupportStack'',
           replicationBucket = Some
             \<lparr>bucketName = ''token:CrossRegionCodePipelineReplicationBucket'',
              bucket_props =
                \<lparr>blockPublicAccess = BLOCK_ALL, encryption = KMS_MANAGED, enforceSSL = True,
                 removalPolicy = RETAIN, autoDeleteObjects = False\<rparr>,
              defaultChild = Some \<lparr>loggingConfiguration = Some
                \<lparr>destinationBucketName = ''MultiAccountAccessLogsBucket'',
                 logFilePrefix = ''logs/''\<rparr>\<rparr>\<rparr>\<rparr>]"
  by (simp add: crossRegionLoop.simps pipelineStackNode_def supportStackNode_def
      acccessLogsBucketNameStr_def logFilePrefixStr_def)

text \<open>
  The logging destinations a run of the constructor leaves behind: the artifact bucket
  logs to the name of the access-log bucket, which is the framework's token for it; a
  cross-region replication bucket logs to the literal \<open>MultiAccountAccessLogsBucket\<close>,
  the construct id of the access-log bucket.
\<close>

lemma CdkPipelineStack_artifact_logging:
  assumes "CdkPipelineStack K penv cs = Inr (st, cs')"
  shows "\<exists>b cfn. artifactBucket (pipeline st) = Some b \<and> defaultChild b = Some cfn \<and>
           loggingConfiguration cfn =
             Some \<lparr>destinationBucketName = bucketName (accessLogsBucket st),
                   logFilePrefix = ''logs/''\<rparr> \<and>
           bucketName (accessLogsBucket st) = bucketNameToken K ''MultiAccountAccessLogsBucket''"
  using assms by (auto simp add: CdkPipelineStack_result split: sum.splits)

lemma CdkPipelineStack_cross_region_logging:
  assumes "CdkPipelineStack K penv cs = Inr (st, cs')"
    and "k < length cs"
    and "constructor_name (cs ! k) = ''CrossRegionSupportStack''"
  shows "\<exists>b cfn. replicationBucket (cs' ! k) = Some b \<and> defaultChild b = Some cfn \<and>
           loggingConfiguration cfn =
             Some \<lparr>destinationBucketName = ''MultiAccountAccessLogsBucket'',
                   logFilePrefix = ''logs/''\<rparr>"
proof -
  from assms(1) have loop: "crossRegionLoop 0 cs = Inr cs'"
    by (auto simp add: CdkPipelineStack_result split: sum.splits)
  from crossRegionLoop_destination [OF loop _ assms(2,3)] show ?thesis
    by auto
qed

section \<open>The claims: the pipeline stack\<close>

text \<open>
  C1, at an app that holds a cross-region support stack. The constructor returns; the
  artifact bucket logs to the access-log bucket's name \<open>token:MultiAccountAccessLogsBucket\<close>
  under \<open>logs/\<close>, and the replication bucket logs to \<open>MultiAccountAccessLogsBucket\<close>,
  which is not that name.
\<close>

theorem C1_replication_bucket_logs_to_construct_id:
  "\<exists>st. CdkPipelineStack example_collaborators env_unset [pipelineStackNode, supportStackNode] =
           Inr (st, [pipelineStackNode,
             \<lparr>constructor_name = ''CrossRegionSupportStack'',
              replicationBucket = Some
                \<lparr>bucketName = ''token:CrossRegionCodePipelineReplicationBucket'',
                 bucket_props =
                   \<lparr>blockPublicAccess = BLOCK_ALL, encryption = KMS_MANAGED, enforceSSL = True,
                    removalPolicy = RETAIN, autoDeleteObjects = False\<rparr>,
                 defaultChild = Some \<lparr>loggingConfiguration = Some
                   \<lparr>destinationBucketName = ''MultiAccountAccessLogsBucket'',
                    logFilePrefix = ''logs/''\<rparr>\<rparr>\<rparr>\<rparr>]) \<and>
         bucketName (accessLogsBucket st) = ''token:MultiAccountAccessLogsBucket'' \<and>
         bucketName (accessLogsBucket st) \<noteq> ''MultiAccountAccessLogsBucket'' \<and>
         artifactBucket (pipeline st) = Some
           \<lparr>bucketName = ''token:ArtifactsBucket'',
            bucket_props =
              \<lparr>blockPublicAccess = BLOCK_ALL, encryption = KMS, enforceSSL = True,
               removalPolicy = RETAIN, autoDeleteObjects = False\<rparr>,
            defaultChild = Some \<lparr>loggingConfiguration = Some
              \<lparr>destinationBucketName = ''token:MultiAccountAccessLogsBucket'',
               logFilePrefix = ''logs/''\<rparr>\<rparr>\<rparr>"
  by (simp add: CdkPipelineStack_result crossRegionLoop_example example_collaborators_def)

text \<open>
  C2. The pipeline declares exactly three waves, \<open>DEV-and-QA-Deployments\<close> with the
  stages dev and qa, then \<open>Primary-DB-Region-Deployments\<close> with stg-primary and
  prd-primary, then \<open>Secondary-DB-Region-Deployments\<close> with stg-backup and prd-backup;
  in the finalized pipeline the waves stand in the order of their declaration, and the
  stages of a wave in the order in which they were added.
\<close>

theorem C2_waves_in_declaration_order:
  assumes "crossRegionLoop 0 cs = Inr cs'"
  shows "\<exists>st. CdkPipelineStack K penv cs = Inr (st, cs') \<and> built (pipeline st) \<and>
           map (\<lambda>w. (wave_id w, map stage_id (stages w))) (waves (pipeline st)) =
             [(''DEV-and-QA-Deployments'', [''dev'', ''qa'']),
              (''Primary-DB-Region-Deployments'', [''stg-primary'', ''prd-primary'']),
              (''Secondary-DB-Region-Deployments'', [''stg-backup'', ''prd-backup''])]"
  using assms by (simp add: CdkPipelineStack_result AppStage_new_id)

theorem C2_waves_in_declaration_order_witness:
  "\<exists>st. CdkPipelineStack example_collaborators env_unset [] = Inr (st, []) \<and>
         built (pipeline st) \<and>
         map (\<lambda>w. (wave_id w, map stage_id (stages w))) (waves (pipeline st)) =
           [(''DEV-and-QA-Deployments'', [''dev'', ''qa'']),
            (''Primary-DB-Region-Deployments'', [''stg-primary'', ''prd-primary'']),
            (''Secondary-DB-Region-Deployments'', [''stg-backup'', ''prd-backup''])]"
  using C2_waves_in_declaration_order [of "[]" "[]" example_collaborators env_unset]
  by (simp add: crossRegionLoop_past_end)

text \<open>
  C3. The primary-database handle given to stg-backup is the database instance of
  stg-primary, and the one given to prd-backup is the database instance of prd-primary,
  both in the stage's properties and in the properties its \<open>RDSStack\<close> is created with;
  each primary stage is created before its secondary stage.
\<close>

theorem C3_secondary_reads_primary_instance:
  assumes "crossRegionLoop 0 cs = Inr cs'"
  shows "\<exists>st stgPrimary prdPrimary stgBackup prdBackup sp pp.
           CdkPipelineStack K penv cs = Inr (st, cs') \<and>
           stageNamed ''stg-primary'' st = Some stgPrimary \<and>
           stageNamed ''prd-primary'' st = Some prdPrimary \<and>
           stageNamed ''stg-backup'' st = Some stgBackup \<and>
           stageNamed ''prd-backup'' st = Some prdBackup \<and>
           stage_props stgBackup = Some sp \<and>
           primaryRdsInstance sp = Some (postgresRDSInstance (rdsStack stgPrimary)) \<and>
           stage_props prdBackup = Some pp \<and>
           primaryRdsInstance pp = Some (postgresRDSInstance (rdsStack prdPrimary)) \<and>
           rdsStack stgBackup = new_RDSStack K ''stg-backup'' ''RDSStack''
             \<lparr>rds_vpc = vpc (new_VpcStack K ''stg-backup'' ''VPCStack''),
              rds_securityGroup = ingressSecurityGroup (new_VpcStack K ''stg-backup'' ''VPCStack''),
              rds_stage = ''stg-backup'',
              rds_secretReplicationRegions = [],
              rds_primaryRdsInstance = Some (postgresRDSInstance (rdsStack stgPrimary))\<rparr> \<and>
           rdsStack prdBackup = new_RDSStack K ''prd-backup'' ''RDSStack''
             \<lparr>rds_vpc = vpc (new_VpcStack K ''prd-backup'' ''VPCStack''),
              rds_securityGroup = ingressSecurityGroup (new_VpcStack K ''prd-backup'' ''VPCStack''),
              rds_stage = ''prd-backup'',
              rds_secretReplicationRegions = [],
              rds_primaryRdsInstance = Some (postgresRDSInstance (rdsStack prdPrimary))\<rparr> \<and>
           createdBefore ''stg-primary'' ''stg-backup'' (nodeChildren st) \<and>
           createdBefore ''prd-primary'' ''prd-backup'' (nodeChildren st)"
  using assms
  by (simp add: CdkPipelineStack_result stageNamed_def AppStage_new_id AppStage_new_props
      AppStage_new_rds)

theorem C3_secondary_reads_primary_instance_witness:
  "\<exists>st stgPrimary prdPrimary stgBackup prdBackup sp pp.
     CdkPipelineStack example_collaborators env_unset [pipelineStackNode] =
       Inr (st, [pipelineStackNode]) \<and>
     stageNamed ''stg-primary'' st = Some stgPrimary \<and>
     stageNamed ''prd-primary'' st = Some prdPrimary \<and>
     stageNamed ''stg-backup'' st = Some stgBackup \<and>
     stageNamed ''prd-backup'' st = Some prdBackup \<and>
     stage_props stgBackup = Some sp \<and>
     primaryRdsInstance sp = Some ''stg-primary/RDSStack/PostgresRdsInstance'' \<and>
     postgresRDSInstance (rdsStack stgPrimary) = ''stg-primary/RDSStack/PostgresRdsInstance'' \<and>
     stage_props prdBackup = Some pp \<and>
     primaryRdsInstance pp = Some ''prd-primary/RDSStack/PostgresRdsInstance'' \<and>
     postgresRDSInstance (rdsStack prdPrimary) = ''prd-primary/RDSStack/PostgresRdsInstance'' \<and>
     createdBefore ''stg-primary'' ''stg-backup'' (nodeChildren st) \<and>
     createdBefore ''prd-primary'' ''prd-backup'' (nodeChildren st)"
proof -
  have loop: "crossRegionLoop 0 [pipelineStackNode] = Inr [pipelineStackNode]"
    by (rule crossRegionLoop_noop) (simp add: pipelineStackNode_def)
  obtain st stgPrimary prdPrimary stgBackup prdBackup sp pp where r:
    "CdkPipelineStack example_collaborators env_unset [pipelineStackNode] =
       Inr (st, [pipelineStackNode])"
    "stageNamed ''stg-primary'' st = Some stgPrimary"
    "stageNamed ''prd-primary'' st = Some prdPrimary"
    "stageNamed ''stg-backup'' st = Some stgBackup"
    "stageNamed ''prd-backup'' st = Some prdBackup"
    "stage_props stgBackup = Some sp"
    "primaryRdsInstance sp = Some (postgresRDSInstance (rdsStack stgPrimary))"
    "stage_props prdBackup = Some pp"
    "primaryRdsInstance pp = Some (postgresRDSInstance (rdsStack prdPrimary))"
    "createdBefore ''stg-primary'' ''stg-backup'' (nodeChildren st)"
    "createdBefore ''prd-primary'' ''prd-backup'' (nodeChildren st)"
    using C3_secondary_reads_primary_instance [OF loop, of example_collaborators env_unset]
    by blast
  have st: "st = the (resultStack (CdkPipelineStack example_collaborators env_unset [pipelineStackNode]))"
    by (simp add: r(1) resultStack_def)
  have "postgresRDSInstance (rdsStack stgPrimary) = ''stg-primary/RDSStack/PostgresRdsInstance''"
    using r(2) unfolding st
    by (auto simp add: CdkPipelineStack_result loop resultStack_def stageNamed_def
        AppStage_new_id AppStage_new_def Let_def example_collaborators_def)
  moreover have "postgresRDSInstance (rdsStack prdPrimary) = ''prd-primary/RDSStack/PostgresRdsInstance''"
    using r(3) unfolding st
    by (auto simp add: CdkPipelineStack_result loop resultStack_def stageNamed_def
        AppStage_new_id AppStage_new_def Let_def example_collaborators_def)
  ultimately show ?thesis using r by auto
qed

text \<open>
  C5, with a variable set to the empty string counted as unset. For every assignment
  of the environment variables, the source step
  references the repository \<open>org/repo\<close> at the branch \<open>branch\<close>, where each of the
  three is the value of \<open>GITHUB_ORG\<close>, \<open>GITHUB_REPO\<close>, \<open>GITHUB_BRANCH\<close> when that
  variable is set to a non-empty string and the fallback (\<open>undefined-github-org\<close>,
  \<open>undefined-github-repo\<close>, \<open>main\<close>) when it is unset or set to the empty string; the
  commands are exactly \<open>npm ci\<close>, \<open>npm run build\<close>, \<open>npx cdk synth\<close>; and the account
  and region of every stage come from the five other variables in the same way, with
  the fallback \<open>undefined\<close>.
\<close>

theorem C5_source_commands_and_defaults:
  assumes "crossRegionLoop 0 cs = Inr cs'"
  shows "\<exists>st. CdkPipelineStack K penv cs = Inr (st, cs') \<and>
           input (synth (pipeline st)) =
             \<lparr>repoString = or_default (penv ''GITHUB_ORG'') ''undefined-github-org'' @ ''/'' @
                            or_default (penv ''GITHUB_REPO'') ''undefined-github-repo'',
              branch = or_default (penv ''GITHUB_BRANCH'') ''main''\<rparr> \<and>
           commands (synth (pipeline st)) = [''npm ci'', ''npm run build'', ''npx cdk synth''] \<and>
           map (\<lambda>s. (stage_id s, map_option env (stage_props s)))
               (concat (map stages (waves (pipeline st)))) =
             [(''dev'', Some (Some \<lparr>account = or_default (penv ''DEV_ACCOUNT_ID'') ''undefined'',
                 region = or_default (penv ''PRIMARY_REGION'') ''undefined''\<rparr>)),
              (''qa'', Some (Some \<lparr>account = or_default (penv ''DEV_ACCOUNT_ID'') ''undefined'',
                 region = or_default (penv ''SECONDARY_REGION'') ''undefined''\<rparr>)),
              (''stg-primary'', Some (Some \<lparr>account = or_default (penv ''STG_ACCOUNT_ID'') ''undefined'',
                 region = or_default (penv ''PRIMARY_REGION'') ''undefined''\<rparr>)),
              (''prd-primary'', Some (Some \<lparr>account = or_default (penv ''PRD_ACCOUNT_ID'') ''undefined'',
                 region = or_default (penv ''PRIMARY_REGION'') ''undefined''\<rparr>)),
              (''stg-backup'', Some (Some \<lparr>account = or_default (penv ''STG_ACCOUNT_ID'') ''undefined'',
                 region = or_default (penv ''SECONDARY_REGION'') ''undefined''\<rparr>)),
              (''prd-backup'', Some (Some \<lparr>account = or_default (penv ''PRD_ACCOUNT_ID'') ''undefined'',
                 region = or_default (penv ''SECONDARY_REGION'') ''undefined''\<rparr>))] \<and>
           or_default None d = d \<and> or_default (Some []) d = d \<and>
           or_default (Some (c # s)) d = c # s"
  using assms
  by (simp add: CdkPipelineStack_result AppStage_new_id AppStage_new_props or_default_def)

theorem C5_source_commands_and_defaults_witness:
  "\<exists>st. CdkPipelineStack example_collaborators env_release [] = Inr (st, []) \<and>
         input (synth (pipeline st)) = \<lparr>repoString = ''acme/app'', branch = ''release''\<rparr> \<and>
         commands (synth (pipeline st)) = [''npm ci'', ''npm run build'', ''npx cdk synth'']"
  using C5_source_commands_and_defaults [of "[]" "[]" example_collaborators env_release]
  by (auto simp add: crossRegionLoop_past_end env_release_def or_default_def)

text \<open>
  C5 where \<open>GITHUB_ORG\<close> is set to the empty string: the source step references
  \<open>undefined-github-org/app\<close>, and not \<open>/app\<close>, the variable's value followed by the
  repository.
\<close>

theorem C5_empty_variable_counterexample:
  "map_option (repoString \<circ> input \<circ> synth \<circ> pipeline)
     (resultStack (CdkPipelineStack example_collaborators env_empty_org [])) =
     Some ''undefined-github-org/app'' \<and>
   the (env_empty_org ''GITHUB_ORG'') @ ''/'' @ the (env_empty_org ''GITHUB_REPO'') = ''/app''"
  by (simp add: CdkPipelineStack_result crossRegionLoop_past_end resultStack_def
      env_empty_org_def or_default_def)

text \<open>
  C6. The access-log bucket is created with all four public-access-block flags set,
  \<open>enforceSSL\<close> true, S3-managed encryption, the removal policy \<open>DESTROY\<close> and
  \<open>autoDeleteObjects\<close> true: these are the properties of the bucket the stack holds.
\<close>

theorem C6_access_log_bucket_properties:
  assumes "crossRegionLoop 0 cs = Inr cs'"
  shows "\<exists>st. CdkPipelineStack K penv cs = Inr (st, cs') \<and>
           blockPublicAccess (bucket_props (accessLogsBucket st)) =
             \<lparr>blockPublicAcls = True, blockPublicPolicy = True,
              ignorePublicAcls = True, restrictPublicBuckets = True\<rparr> \<and>
           enforceSSL (bucket_props (accessLogsBucket st)) \<and>
           encryption (bucket_props (accessLogsBucket st)) = S3_MANAGED \<and>
           removalPolicy (bucket_props (accessLogsBucket st)) = DESTROY \<and>
           autoDeleteObjects (bucket_props (accessLogsBucket st)) \<and>
           ''MultiAccountAccessLogsBucket'' \<in> set (nodeChildren st)"
  using assms by (simp add: CdkPipelineStack_result)

theorem C6_access_log_bucket_properties_witness:
  "\<exists>st. CdkPipelineStack example_collaborators env_release [pipelineStackNode, supportStackNode] =
           Inr (st, [pipelineStackNode,
             \<lparr>constructor_name = ''CrossRegionSupportStack'',
              replicationBucket = Some
                \<lparr>bucketName = ''token:CrossRegionCodePipelineReplicationBucket'',
                 bucket_props =
                   \<lparr>blockPublicAccess = BLOCK_ALL, encryption = KMS_MANAGED, enforceSSL = True,
                    removalPolicy = RETAIN, autoDeleteObjects = False\<rparr>,
                 defaultChild = Some \<lparr>loggingConfiguration = Some
                   \<lparr>destinationBucketName = ''MultiAccountAccessLogsBucket'',
                    logFilePrefix = ''logs/''\<rparr>\<rparr>\<rparr>\<rparr>]) \<and>
         bucket_props (accessLogsBucket st) =
           \<lparr>blockPublicAccess = \<lparr>blockPublicAcls = True, blockPublicPolicy = True,
              ignorePublicAcls = True, restrictPublicBuckets = True\<rparr>,
            encryption = S3_MANAGED, enforceSSL = True,
            removalPolicy = DESTROY, autoDeleteObjects = True\<rparr>"
proof -
  obtain st where st:
    "CdkPipelineStack example_collaborators env_release [pipelineStackNode, supportStackNode] =
       Inr (st, [pipelineStackNode,
         \<lparr>constructor_name = ''CrossRegionSupportStack'',
          replicationBucket = Some
            \<lparr>bucketName = ''token:CrossRegionCodePipelineReplicationBucket'',
             bucket_props =
               \<lparr>blockPublicAccess = BLOCK_ALL, encryption = KMS_MANAGED, enforceSSL = True,
                removalPolicy = RETAIN, autoDeleteObjects = False\<rparr>,
             defaultChild = Some \<lparr>loggingConfiguration = Some
               \<lparr>destinationBucketName = ''MultiAccountAccessLogsBucket'',
                logFilePrefix = ''logs/''\<rparr>\<rparr>\<rparr>\<rparr>])"
    and props:
    "blockPublicAccess (bucket_props (accessLogsBucket st)) =
       \<lparr>blockPublicAcls = True, blockPublicPolicy = True,
        ignorePublicAcls = True, restrictPublicBuckets = True\<rparr>"
    "enforceSSL (bucket_props (accessLogsBucket st))"
    "encryption (bucket_props (accessLogsBucket st)) = S3_MANAGED"
    "removalPolicy (bucket_props (accessLogsBucket st)) = DESTROY"
    "autoDeleteObjects (bucket_props (accessLogsBucket st))"
    using C6_access_log_bucket_properties [OF crossRegionLoop_example,
        of example_collaborators env_release]
    by blast
  have "bucket_props (accessLogsBucket st) =
      \<lparr>blockPublicAccess = \<lparr>blockPublicAcls = True, blockPublicPolicy = True,
         ignorePublicAcls = True, restrictPublicBuckets = True\<rparr>,
       encryption = S3_MANAGED, enforceSSL = True,
       removalPolicy = DESTROY, autoDeleteObjects = True\<rparr>"
    using props by (cases "bucket_props (accessLogsBucket st)") simp
  with st show ?thesis by blast
qed

text \<open>
  C8, for three waves. The pipeline that the constructor declares has three waves.
\<close>

theorem C8_three_waves:
  assumes "crossRegionLoop 0 cs = Inr cs'"
  shows "\<exists>st. CdkPipelineStack K penv cs = Inr (st, cs') \<and> length (waves (pipeline st)) = 3"
  using assms by (simp add: CdkPipelineStack_result)

theorem C8_three_waves_witness:
  "\<exists>st. CdkPipelineStack example_collaborators env_empty_org [] = Inr (st, []) \<and>
         length (waves (pipeline st)) = 3"
  using C8_three_waves [of "[]" "[]" example_collaborators env_empty_org]
  by (simp add: crossRegionLoop_past_end)

text \<open>
  C8 for five waves: with no variable set and no children in the scope, the pipeline
  has three waves, not five.
\<close>

theorem C8_five_waves_counterexample:
  "map_option (length \<circ> waves \<circ> pipeline)
     (resultStack (CdkPipelineStack example_collaborators env_unset [])) = Some 3 \<and>
   map_option (length \<circ> waves \<circ> pipeline)
     (resultStack (CdkPipelineStack example_collaborators env_unset [])) \<noteq> Some 5"
  by (simp add: CdkPipelineStack_result crossRegionLoop_past_end resultStack_def)

text \<open>
  C9. When no child of the scope has the class name \<open>CrossRegionSupportStack\<close>, the loop
  returns the children as they are and raises nothing, and the constructor returns the
  same stack as it does for a scope with no children at all.
\<close>

theorem C9_no_match_is_a_noop:
  assumes "\<forall>c \<in> set cs. constructor_name c \<noteq> ''CrossRegionSupportStack''"
  shows "crossRegionLoop 0 cs = Inr cs \<and>
         (\<exists>st. CdkPipelineStack K penv cs = Inr (st, cs) \<and>
               CdkPipelineStack K penv [] = Inr (st, []))"
proof -
  have loop: "crossRegionLoop 0 cs = Inr cs"
    using assms by (intro crossRegionLoop_noop) simp
  have empty: "crossRegionLoop 0 [] = Inr []"
    by (rule crossRegionLoop_past_end) simp
  show ?thesis
    by (simp add: CdkPipelineStack_result loop empty)
qed

theorem C9_no_match_is_a_noop_witness:
  "constructor_name pipelineStackNode \<noteq> ''CrossRegionSupportStack'' \<and>
   crossRegionLoop 0 [pipelineStackNode, pipelineStackNode] =
     Inr [pipelineStackNode, pipelineStackNode] \<and>
   (\<exists>st. CdkPipelineStack example_collaborators env_release [pipelineStackNode, pipelineStackNode] =
           Inr (st, [pipelineStackNode, pipelineStackNode]) \<and>
         CdkPipelineStack example_collaborators env_release [] = Inr (st, []))"
proof -
  have ne: "constructor_name pipelineStackNode \<noteq> ''CrossRegionSupportStack''"
    by (simp add: pipelineStackNode_def)
  then have "\<forall>c \<in> set [pipelineStackNode, pipelineStackNode].
      constructor_name c \<noteq> ''CrossRegionSupportStack''"
    by simp
  from C9_no_match_is_a_noop [OF this, of example_collaborators env_release] ne
  show ?thesis by simp
qed

section \<open>The claims: the Lambda handlers\<close>




text \<open>
  C10. The module calls \<open>createConnection\<close> once and leaves the promise it returns
  unobserved: not awaited, no handler attached. Whatever the call \<open>db()\<close> does (throws,
  or returns a promise that is pending, fulfilled or rejected), the module goes on to
  construct the server and export its handler: what it exports is the same for every
  outcome of the connection attempt, and is decided by the library calls alone. A
  failure of the attempt is the rejection of that unobserved promise, and an attempt
  that is still pending does not hold the export back.
\<close>

theorem C10_handler_independent_of_connection:
  "unobserved (part_000 ApolloServer createHandler tds rs db) = [createConnection db] \<and>
   exported (part_000 ApolloServer createHandler tds rs db) =
     (case ApolloServer \<lparr>typeDefs = tds, resolvers = rs, introspection = True,
             plugins = [ApolloServerPluginLandingPageGraphQLPlayground]\<rparr> of
        Thrown x \<Rightarrow> Inl x
      | Returned server \<Rightarrow>
          (case createHandler server of Thrown x \<Rightarrow> Inl x | Returned h \<Rightarrow> Inr h)) \<and>
   exported (part_000 ApolloServer createHandler tds rs db) =
     exported (part_000 ApolloServer createHandler tds rs db') \<and>
   unobserved (part_000 ApolloServer createHandler tds rs (Thrown e)) = [Rejected e] \<and>
   unobserved (part_000 ApolloServer createHandler tds rs (Returned (Rejected e))) = [Rejected e] \<and>
   unobserved (part_000 ApolloServer createHandler tds rs (Returned Pending)) = [Pending] \<and>
   unobserved (part_000 ApolloServer createHandler tds rs (Returned (Fulfilled v))) =
     [Fulfilled ()]"
  by (simp add: part_000_def createConnection_def Let_def split: completion.split)

end
